theory Spec2Isabelle
  imports Main
begin

section \<open>Python values used by the two modules\<close>

text \<open>
  A Python \<open>str\<close> is a sequence of Unicode code points. The Turkish letters the code
  handles (U+0131, U+0130, ...) lie outside one byte, so a character is a natural
  number (its code point) and a string a list of them. \<open>chr(39)\<close> is the number 39.
\<close>

type_synonym codepoint = nat
type_synonym str = "codepoint list"

text \<open>The exceptions the two modules can raise, each with its message.\<close>

datatype error =
    NotImplementedError string
  | AttributeError string
  | StopIteration

text \<open>
  \<open>s.find(c)\<close> for a one-character \<open>c\<close>: the index of the first occurrence, or -1.
\<close>

fun str_find :: "str \<Rightarrow> codepoint \<Rightarrow> int" where
  "str_find [] c = -1"
| "str_find (x # xs) c =
     (if x = c then 0
      else (let r = str_find xs c in if r < 0 then -1 else r + 1))"

text \<open>\<open>s.replace(c, "")\<close> for a one-character \<open>c\<close>: every occurrence is deleted.\<close>

definition replace_with_empty :: "str \<Rightarrow> codepoint \<Rightarrow> str" where
  "replace_with_empty s c = filter (\<lambda>x. x \<noteq> c) s"

text \<open>
  \<open>s.translate(table)\<close> for a table from code points to strings: a character with an
  entry is replaced by the entry, every other character is kept.
\<close>

definition translate :: "(codepoint \<rightharpoonup> str) \<Rightarrow> str \<Rightarrow> str" where
  "translate table s = concat (map (\<lambda>c. case table c of None \<Rightarrow> [c] | Some r \<Rightarrow> r) s)"

section \<open>Collaborating types that are outside the two modules\<close>

text \<open>
  \<open>PrimaryPos\<close>, \<open>DictionaryItem\<close>, \<open>SingleAnalysis\<close>, \<open>Token\<close> and \<open>StemAndEnding\<close> are
  imported by the two modules and not defined in them. They are declared here with the
  attributes the modules read.
\<close>

text \<open>
  Modelled from the spec: the enumeration \<open>PrimaryPos\<close> is missing. The code names one
  member, \<open>PrimaryPos.Noun\<close>; every other member is kept by its name.
\<close>

datatype PrimaryPos = Noun | OtherPos string

text \<open>
  Modelled from the spec: the class \<open>DictionaryItem\<close> (the spec's Lexical Item) is
  missing. It has a root string, a primary part-of-speech and an "unknown" marker used
  for synthetic placeholder items; \<open>is_unknown()\<close> reads the marker.
\<close>

record DictionaryItem =
  root :: str
  primary_pos :: PrimaryPos
  unknown_marker :: bool

definition is_unknown :: "DictionaryItem \<Rightarrow> bool" where
  "is_unknown d = unknown_marker d"

text \<open>A morpheme is identified by a stable symbolic id.\<close>

type_synonym Morpheme = string

text \<open>
  Modelled from the spec: the constant \<open>TurkishMorphotactics.p3sg\<close> is missing; it is
  the third-person-singular possessive morpheme.
\<close>

definition p3sg :: Morpheme where
  "p3sg = ''P3sg''"

text \<open>
  Modelled from the spec: the class \<open>SingleAnalysis\<close> is missing. One derivation holds
  the lexical item used as root (\<open>item\<close>), the stem (\<open>get_stem()\<close>), the ordered morphemes
  applied, and the final derived part-of-speech (\<open>get_pos()\<close>), which may differ from
  the root item's primary part-of-speech.
\<close>

record SingleAnalysis =
  item :: DictionaryItem
  get_stem :: str
  morphemes :: "Morpheme list"
  get_pos :: PrimaryPos

text \<open>
  Modelled from the spec: \<open>SingleAnalysis.is_unknown()\<close> is missing; an analysis is
  unknown when its root item is the unknown marker.
\<close>

definition SingleAnalysis_is_unknown :: "SingleAnalysis \<Rightarrow> bool" where
  "SingleAnalysis_is_unknown a = is_unknown (item a)"

text \<open>
  Modelled from the spec: \<open>SingleAnalysis.contains_morpheme(m)\<close> is missing; it tells
  whether the analysis applies the morpheme.
\<close>

definition contains_morpheme :: "SingleAnalysis \<Rightarrow> Morpheme \<Rightarrow> bool" where
  "contains_morpheme a m = (m \<in> set (morphemes a))"

text \<open>
  Modelled from the spec: \<open>SingleAnalysis.__eq__\<close> is missing; equality is structural
  over the root item, the morpheme sequence and the stem.
\<close>

definition SingleAnalysis_eq :: "SingleAnalysis \<Rightarrow> SingleAnalysis \<Rightarrow> bool" where
  "SingleAnalysis_eq a b =
     (item a = item b \<and> morphemes a = morphemes b \<and> get_stem a = get_stem b)"

text \<open>Equality of two tuples of analyses: same length, equal element by element.\<close>

definition tuple_eq :: "SingleAnalysis list \<Rightarrow> SingleAnalysis list \<Rightarrow> bool" where
  "tuple_eq xs ys = list_all2 SingleAnalysis_eq xs ys"

text \<open>
  What \<open>WordAnalysis.__hash__\<close> calls and the modules do not define: the built-in hash
  of a string, and the hash and the truth value of a \<open>SingleAnalysis\<close>. They are
  parameters.
\<close>

record hashing =
  hash_str :: "str \<Rightarrow> int"
  hash_SingleAnalysis :: "SingleAnalysis \<Rightarrow> int"
  truthy :: "SingleAnalysis \<Rightarrow> bool"

section \<open>word\_analysis.py\<close>

record WordAnalysis =
  inp :: str
  analysis_results :: "SingleAnalysis list"
  normalized_input :: str
  index :: nat

text \<open>\<open>WordAnalysis.__init__\<close>; \<open>normalized_input\<close> defaults to \<open>None\<close>.\<close>

definition WordAnalysis_init ::
  "str \<Rightarrow> SingleAnalysis list \<Rightarrow> str option \<Rightarrow> WordAnalysis" where
  "WordAnalysis_init i results normalized =
     \<lparr>inp = i,
      analysis_results = results,
      normalized_input = (case normalized of None \<Rightarrow> i | Some n \<Rightarrow> n),
      index = 0\<rparr>"

definition is_correct :: "WordAnalysis \<Rightarrow> bool" where
  "is_correct self =
     (length (analysis_results self) > 0 \<and>
      \<not> SingleAnalysis_is_unknown (analysis_results self ! 0))"

text \<open>
  The right operand of \<open>==\<close> is any Python object: a \<open>WordAnalysis\<close> or something else.
  The first branch of \<open>__eq__\<close>, \<open>self is other\<close>, returns \<open>True\<close>; an object has the
  same fields as itself, and on equal fields the field comparison below returns
  \<open>True\<close> as well, so the branch adds nothing over values.
\<close>

datatype py_object = Obj_WordAnalysis WordAnalysis | Obj_other

fun WordAnalysis_eq :: "WordAnalysis \<Rightarrow> py_object \<Rightarrow> bool" where
  "WordAnalysis_eq self (Obj_WordAnalysis other) =
     (if inp self \<noteq> inp other then False
      else (if normalized_input self \<noteq> normalized_input other then False
            else tuple_eq (analysis_results self) (analysis_results other)))"
| "WordAnalysis_eq self Obj_other = False"

definition WordAnalysis_hash :: "hashing \<Rightarrow> WordAnalysis \<Rightarrow> int" where
  "WordAnalysis_hash H self =
     foldl (\<lambda>result x. 31 * result + (if truthy H x then hash_SingleAnalysis H x else 0))
       (31 * hash_str H (inp self) + hash_str H (normalized_input self))
       (analysis_results self)"

definition WordAnalysis_iter :: "WordAnalysis \<Rightarrow> WordAnalysis" where
  "WordAnalysis_iter self = self\<lparr>index := 0\<rparr>"

definition WordAnalysis_next :: "WordAnalysis \<Rightarrow> error + (SingleAnalysis \<times> WordAnalysis)" where
  "WordAnalysis_next self =
     (if index self < length (analysis_results self)
      then Inr (analysis_results self ! index self, self\<lparr>index := index self + 1\<rparr>)
      else Inl StopIteration)"

text \<open>
  A \<open>for\<close> loop over a \<open>WordAnalysis\<close>: \<open>__iter__\<close> once, then \<open>__next__\<close> until it
  raises \<open>StopIteration\<close>. \<open>for_loop\<close> collects what \<open>__next__\<close> yields when the loop
  body leaves the object alone.
\<close>

function for_loop :: "WordAnalysis \<Rightarrow> SingleAnalysis list \<Rightarrow> SingleAnalysis list" where
  "for_loop it yielded =
     (case WordAnalysis_next it of
        Inl e \<Rightarrow> yielded
      | Inr (x, it') \<Rightarrow> for_loop it' (yielded @ [x]))"
  by pat_completeness auto
termination
  by (relation "measure (\<lambda>(it, yielded). length (analysis_results it) - index it)")
     (auto simp: WordAnalysis_next_def split: if_splits)

declare for_loop.simps [simp del]

definition iterate :: "WordAnalysis \<Rightarrow> SingleAnalysis list" where
  "iterate self = for_loop (WordAnalysis_iter self) []"

text \<open>
  \<open>__iter__\<close> returns \<open>self\<close>: the object is its own iterator, and every loop over it
  shares the one \<open>index\<close>. \<open>exhaust\<close> is the object as a loop over it leaves it, when
  \<open>__next__\<close> has raised \<open>StopIteration\<close>.
\<close>

function exhaust :: "WordAnalysis \<Rightarrow> WordAnalysis" where
  "exhaust it =
     (case WordAnalysis_next it of
        Inl e \<Rightarrow> it
      | Inr (x, it') \<Rightarrow> exhaust it')"
  by pat_completeness auto
termination
  by (relation "measure (\<lambda>it. length (analysis_results it) - index it)")
     (auto simp: WordAnalysis_next_def split: if_splits)

declare exhaust.simps [simp del]

text \<open>
  A loop over the object whose body is a second loop over the same object,
  \<open>for a in self: for b in self: pass\<close>; \<open>nested_for_loop\<close> collects what the outer
  loop yields.
\<close>

function nested_for_loop :: "WordAnalysis \<Rightarrow> SingleAnalysis list \<Rightarrow> SingleAnalysis list" where
  "nested_for_loop it yielded =
     (case WordAnalysis_next it of
        Inl e \<Rightarrow> yielded
      | Inr (x, it') \<Rightarrow> nested_for_loop (exhaust (WordAnalysis_iter it')) (yielded @ [x]))"
  by pat_completeness auto
termination
proof (relation "measure (\<lambda>(it, yielded). length (analysis_results it) - index it)")
  show "wf (measure (\<lambda>(it, yielded). length (analysis_results it) - index it))"
    by simp
next
  fix it :: WordAnalysis and yielded :: "SingleAnalysis list" and p x it'
  assume n: "WordAnalysis_next it = Inr p" and p: "(x, it') = p"
  have ex: "analysis_results (exhaust j) = analysis_results j \<and>
            length (analysis_results j) \<le> index (exhaust j)" for j
  proof (induction j rule: exhaust.induct)
    case (1 j)
    show ?case
    proof (cases "index j < length (analysis_results j)")
      case True
      then have "WordAnalysis_next j = Inr (analysis_results j ! index j, j\<lparr>index := index j + 1\<rparr>)"
        by (simp add: WordAnalysis_next_def)
      then show ?thesis
        using "1.IH"[of "(analysis_results j ! index j, j\<lparr>index := index j + 1\<rparr>)"]
        by (subst (1 2) exhaust.simps) simp
    next
      case False
      then have "WordAnalysis_next j = Inl StopIteration"
        by (simp add: WordAnalysis_next_def)
      with False show ?thesis
        by (subst (1 2) exhaust.simps) simp
    qed
  qed
  from n p have "index it < length (analysis_results it)"
    and "analysis_results it' = analysis_results it"
    by (auto simp: WordAnalysis_next_def split: if_splits)
  then show "((exhaust (WordAnalysis_iter it'), yielded @ [x]), (it, yielded))
          \<in> measure (\<lambda>(it, yielded). length (analysis_results it) - index it)"
    using ex[of "WordAnalysis_iter it'"] by (simp add: WordAnalysis_iter_def)
qed

declare nested_for_loop.simps [simp del]

definition nested_iterate :: "WordAnalysis \<Rightarrow> SingleAnalysis list" where
  "nested_iterate self = nested_for_loop (WordAnalysis_iter self) []"


definition EMPTY_INPUT_RESULT :: WordAnalysis where
  "EMPTY_INPUT_RESULT = WordAnalysis_init [] [] None"

section \<open>turkish\_morphology.py\<close>

text \<open>
  Modelled from the spec: the class \<open>Token\<close> is missing; the code reads its text,
  \<open>token.content\<close>.
\<close>

record Token =
  content :: str

text \<open>
  Modelled from the spec: the class \<open>StemAndEnding\<close> is missing; it holds the part of
  the word before the split point and the part after it.
\<close>

record StemAndEnding =
  stem :: str
  ending :: str

text \<open>
  The module-level collaborators the functions call, none of them defined in the two
  modules: \<open>TurkishAlphabet.INSTANCE\<close> (its \<open>lower_map\<close> table and its methods
  \<open>normalize_circumflex\<close>, \<open>contains_apostrophe\<close>, \<open>normalize_apostrophe\<close>, \<open>normalize\<close>),
  \<open>TextUtil.normalize_apostrophes\<close> and the built-in \<open>str.lower\<close>. They are parameters,
  taken to return a value on every argument.
\<close>

record externals =
  lower_map :: "codepoint \<rightharpoonup> str"
  str_lower :: "str \<Rightarrow> str"
  normalize_circumflex :: "str \<Rightarrow> str"
  normalize_apostrophes :: "str \<Rightarrow> str"
  contains_apostrophe :: "str \<Rightarrow> bool"
  normalize_apostrophe :: "str \<Rightarrow> str"
  alphabet_normalize :: "str \<Rightarrow> str"

text \<open>
  The fields of a \<open>TurkishMorphology\<close> that \<open>analyze\<close> reads. The tokenizer, the
  rule-based analyzer and the unidentified-token analyzer are objects whose classes are
  missing; each is the function its one called method computes (\<open>tokenize\<close>,
  \<open>analyze\<close>, \<open>analyze\<close>).
\<close>

record TurkishMorphology =
  tokenizer :: "str \<Rightarrow> Token list"
  analyzer :: "str \<Rightarrow> SingleAnalysis list"
  unidentified_token_analyzer :: "Token \<Rightarrow> SingleAnalysis list"
  use_cache :: bool
  use_unidentified_token_analyzer :: bool

text \<open>
  The calls a function makes to the three collaborator objects, in order. Every
  function below returns them beside its value, so that "is invoked" and "no further
  analysis is performed" are statements about the model.
\<close>

datatype call =
    Tokenize str
  | Analyze str
  | AnalyzeUnidentified Token

definition analyze_with_cache :: "TurkishMorphology \<Rightarrow> str \<Rightarrow> call list \<times> (error + WordAnalysis)" where
  "analyze_with_cache self word =
     ([], Inl (NotImplementedError ''Cache is not implemented yet, make use_cache False''))"

definition normalize_for_analysis :: "externals \<Rightarrow> str \<Rightarrow> str" where
  "normalize_for_analysis X word =
     (let s = str_lower X (translate (lower_map X) word);
          s = normalize_circumflex X s;
          no_dot = replace_with_empty s 46;
          no_dot = (if length no_dot = 0 then s else no_dot)
      in normalize_apostrophes X no_dot)"

definition analyze_words_with_apostrophe ::
  "externals \<Rightarrow> TurkishMorphology \<Rightarrow> str \<Rightarrow> call list \<times> SingleAnalysis list" where
  "analyze_words_with_apostrophe X self word =
     (let index = str_find word 39 in
      if index > 0 \<and> index \<noteq> int (length word) - 1
      then
        (let se = \<lparr>stem = take (nat index) word, ending = drop (nat (index + 1)) word\<rparr>;
             stem' = alphabet_normalize X (stem se);
             without_quote = replace_with_empty word 39;
             no_quotes_parses = analyzer self without_quote
         in ([Analyze without_quote],
             if length no_quotes_parses = 0 then []
             else filter (\<lambda>p. primary_pos (item p) = Noun \<and>
                              (contains_morpheme p p3sg \<or> get_stem p = stem'))
                    no_quotes_parses))
      else ([], []))"

text \<open>
  The token branch of \<open>analyze_without_cache\<close> in three steps. Lines 91 to 95: the
  normalized text goes to the apostrophe path or to the rule-based analyzer; the step
  returns the calls, the text kept as normalized input, and the analyses.
\<close>

definition analyzer_step ::
  "externals \<Rightarrow> TurkishMorphology \<Rightarrow> str \<Rightarrow> call list \<times> str \<times> SingleAnalysis list" where
  "analyzer_step X self s =
     (if contains_apostrophe X s
      then (let s = normalize_apostrophe X s;
                (calls, result) = analyze_words_with_apostrophe X self s
            in (calls, s, result))
      else ([Analyze s], s, analyzer self s))"

text \<open>Lines 97 and 98: the unidentified-token fallback.\<close>

definition fallback_step ::
  "TurkishMorphology \<Rightarrow> Token \<Rightarrow> SingleAnalysis list \<Rightarrow> call list \<times> SingleAnalysis list" where
  "fallback_step self token result =
     (if length result = 0 \<and> use_unidentified_token_analyzer self
      then ([AnalyzeUnidentified token], unidentified_token_analyzer self token)
      else ([], result))"

text \<open>Lines 100 and 101: a lone analysis on the unknown item is dropped.\<close>

definition unknown_step :: "SingleAnalysis list \<Rightarrow> SingleAnalysis list" where
  "unknown_step result =
     (if length result = 1 \<and> is_unknown (item (result ! 0)) then [] else result)"

text \<open>
  The \<open>else\<close> branch of \<open>analyze_without_cache\<close> (lines 85 to 103). It reads
  \<open>token.content\<close>; on \<open>token = None\<close> Python raises \<open>AttributeError\<close> (the message is
  written here without its quotation marks).
\<close>

definition analyze_token ::
  "externals \<Rightarrow> TurkishMorphology \<Rightarrow> Token option \<Rightarrow> call list \<times> (error + WordAnalysis)" where
  "analyze_token X self token =
     (case token of
        None \<Rightarrow> ([], Inl (AttributeError ''NoneType object has no attribute content''))
      | Some tok \<Rightarrow>
          (let word = content tok;
               s = normalize_for_analysis X word
           in if length s = 0 then ([], Inr EMPTY_INPUT_RESULT)
              else
                (let (calls1, s, result) = analyzer_step X self s;
                     (calls2, result) = fallback_step self tok result;
                     result = unknown_step result
                 in (calls1 @ calls2, Inr (WordAnalysis_init word result (Some s))))))"

text \<open>
  \<open>analyze_without_cache(word=None, token=None)\<close>. \<open>if word:\<close> is the truth value of
  \<open>word\<close>: false for \<open>None\<close> and for the empty string. The recursive call
  \<open>self.analyze_without_cache(token=tokens[0])\<close> has \<open>word = None\<close> and so runs the
  \<open>else\<close> branch; it is written as that branch (lemma \<open>analyze_without_cache_rec\<close>
  gives the equation with the recursive call).
\<close>

definition str_truth :: "str option \<Rightarrow> bool" where
  "str_truth word = (case word of None \<Rightarrow> False | Some w \<Rightarrow> w \<noteq> [])"

definition analyze_without_cache ::
  "externals \<Rightarrow> TurkishMorphology \<Rightarrow> str option \<Rightarrow> Token option
     \<Rightarrow> call list \<times> (error + WordAnalysis)" where
  "analyze_without_cache X self word token =
     (if str_truth word
      then
        (let w = the word;
             tokens = tokenizer self w
         in if length tokens \<noteq> 1
            then ([Tokenize w], Inr (WordAnalysis_init w [] (Some w)))
            else (let (calls, r) = analyze_token X self (Some (tokens ! 0))
                  in (Tokenize w # calls, r)))
      else analyze_token X self token)"

definition analyze :: "externals \<Rightarrow> TurkishMorphology \<Rightarrow> str \<Rightarrow> call list \<times> (error + WordAnalysis)" where
  "analyze X self word =
     (if use_cache self then analyze_with_cache self word
      else analyze_without_cache X self (Some word) None)"

section \<open>The claims in the spec's words\<close>


text \<open>
  The malformed apostrophe patterns as the spec words them: no apostrophe in the word,
  or an apostrophe at position 0, or an apostrophe at the final character.
\<close>

definition apostrophe_malformed :: "str \<Rightarrow> bool" where
  "apostrophe_malformed word =
     (39 \<notin> set word \<or> word ! 0 = 39 \<or> word ! (length word - 1) = 39)"

text \<open>The calls to the unidentified-token analyzer among the calls made.\<close>

fun is_fallback_call :: "call \<Rightarrow> bool" where
  "is_fallback_call (AnalyzeUnidentified t) = True"
| "is_fallback_call (Tokenize w) = False"
| "is_fallback_call (Analyze w) = False"

section \<open>A small instance\<close>

text \<open>
  Concrete collaborators on which the functions can be run: a lowering of the ASCII and
  Latin-1 capitals, the circumflex and apostrophe tables, a tokenizer that splits at
  the first space, a lexicon of three words and a fallback that answers every token
  with one analysis on the unknown item.
\<close>

definition ascii :: "string \<Rightarrow> str" where
  "ascii s = map of_char s"

definition example_lower_char :: "codepoint \<Rightarrow> codepoint" where
  "example_lower_char c =
     (if (65 \<le> c \<and> c \<le> 90) \<or> (192 \<le> c \<and> c \<le> 222 \<and> c \<noteq> 215) then c + 32 else c)"

definition example_circumflex_char :: "codepoint \<Rightarrow> codepoint" where
  "example_circumflex_char c =
     (if c = 226 then 97 else if c = 238 then 105 else if c = 251 then 117
      else if c = 194 then 65 else if c = 206 then 304 else if c = 219 then 85
      else c)"

definition example_apostrophe_char :: "codepoint \<Rightarrow> codepoint" where
  "example_apostrophe_char c =
     (if c = 8242 \<or> c = 180 \<or> c = 96 \<or> c = 8217 \<or> c = 8216 then 39 else c)"

definition example_externals :: externals where
  "example_externals =
     \<lparr>lower_map = [73 \<mapsto> [305]],
      str_lower = map example_lower_char,
      normalize_circumflex = map example_circumflex_char,
      normalize_apostrophes = map example_apostrophe_char,
      contains_apostrophe = (\<lambda>s. 39 \<in> set (map example_apostrophe_char s)),
      normalize_apostrophe = map example_apostrophe_char,
      alphabet_normalize = map example_lower_char\<rparr>"

definition ahmet_item :: DictionaryItem where
  "ahmet_item = \<lparr>root = ascii ''ahmet'', primary_pos = Noun, unknown_marker = False\<rparr>"

definition ahmeti_item :: DictionaryItem where
  "ahmeti_item = \<lparr>root = ascii ''ahmeti'', primary_pos = Noun, unknown_marker = False\<rparr>"

definition okumak_item :: DictionaryItem where
  "okumak_item =
     \<lparr>root = ascii ''okumak'', primary_pos = OtherPos ''Verb'', unknown_marker = False\<rparr>"

definition unknown_item :: DictionaryItem where
  "unknown_item =
     \<lparr>root = ascii ''UNK'', primary_pos = OtherPos ''Unknown'', unknown_marker = True\<rparr>"

definition example_analyzer :: "str \<Rightarrow> SingleAnalysis list" where
  "example_analyzer s =
     (if s = ascii ''ahmetin''
      then [\<lparr>item = ahmet_item, get_stem = ascii ''ahmet'',
              morphemes = [''Noun'', ''A3sg'', ''Gen''], get_pos = Noun\<rparr>,
            \<lparr>item = ahmeti_item, get_stem = ascii ''ahmeti'',
              morphemes = [''Noun'', ''A3sg'', ''P2sg''], get_pos = Noun\<rparr>]
      else if s = ascii ''okumas'' @ [305]
      then [\<lparr>item = okumak_item, get_stem = ascii ''oku'',
              morphemes = [''Verb'', ''Inf2'', ''Noun'', ''A3sg'', ''P3sg''], get_pos = Noun\<rparr>]
      else if s = ascii ''ahmet''
      then [\<lparr>item = ahmet_item, get_stem = ascii ''ahmet'',
              morphemes = [''Noun'', ''A3sg''], get_pos = Noun\<rparr>]
      else [])"

definition example_unidentified :: "Token \<Rightarrow> SingleAnalysis list" where
  "example_unidentified t =
     [\<lparr>item = unknown_item, get_stem = content t, morphemes = [],
       get_pos = OtherPos ''Unknown''\<rparr>]"

definition example_tokenizer :: "str \<Rightarrow> Token list" where
  "example_tokenizer w =
     (if w = [] then []
      else if 32 \<in> set w
      then [\<lparr>content = takeWhile (\<lambda>c. c \<noteq> 32) w\<rparr>,
            \<lparr>content = drop 1 (dropWhile (\<lambda>c. c \<noteq> 32) w)\<rparr>]
      else [\<lparr>content = w\<rparr>])"

definition example_morphology :: TurkishMorphology where
  "example_morphology =
     \<lparr>tokenizer = example_tokenizer,
      analyzer = example_analyzer,
      unidentified_token_analyzer = example_unidentified,
      use_cache = False,
      use_unidentified_token_analyzer = True\<rparr>"

definition example_hashing :: hashing where
  "example_hashing =
     \<lparr>hash_str = (\<lambda>s. int (sum_list s)),
      hash_SingleAnalysis = (\<lambda>a. int (sum_list (get_stem a)) + int (length (morphemes a))),
      truthy = (\<lambda>a. True)\<rparr>"

section \<open>Properties of word\_analysis.py\<close>

text \<open>
  Claim C7. For every WordAnalysis, \<open>is_correct()\<close> returns true if and only if its
  candidate collection is non-empty and the first element's root item is not the
  unknown marker.
\<close>

theorem is_correct_iff:
  "is_correct wa =
     (analysis_results wa \<noteq> [] \<and> \<not> is_unknown (item (hd (analysis_results wa))))"
  by (cases "analysis_results wa")
     (simp_all add: is_correct_def SingleAnalysis_is_unknown_def)

text \<open>
  A \<open>for\<close> loop yields the analyses from the current index on; after \<open>__iter__\<close> that
  is all of them.
\<close>

lemma for_loop_drop:
  "for_loop it yielded = yielded @ drop (index it) (analysis_results it)"
proof (induction it yielded rule: for_loop.induct)
  case (1 it yielded)
  show ?case
  proof (cases "index it < length (analysis_results it)")
    case True
    let ?x = "analysis_results it ! index it"
    let ?it' = "it\<lparr>index := index it + 1\<rparr>"
    from True have n: "WordAnalysis_next it = Inr (?x, ?it')"
      by (simp add: WordAnalysis_next_def)
    have "for_loop it yielded = for_loop ?it' (yielded @ [?x])"
      by (subst for_loop.simps) (simp add: n)
    also have "\<dots> = (yielded @ [?x]) @ drop (index ?it') (analysis_results ?it')"
      using "1.IH"[OF n refl] .
    also have "\<dots> = yielded @ drop (index it) (analysis_results it)"
      using True by (simp add: Cons_nth_drop_Suc)
    finally show ?thesis .
  next
    case False
    then have "WordAnalysis_next it = Inl StopIteration"
      by (simp add: WordAnalysis_next_def)
    then have "for_loop it yielded = yielded"
      by (subst for_loop.simps) simp
    with False show ?thesis by simp
  qed
qed

lemma iterate_results: "iterate wa = analysis_results wa"
  by (simp add: iterate_def for_loop_drop WordAnalysis_iter_def)

lemma hash_fold_cong:
  assumes "\<And>x y. SingleAnalysis_eq x y \<Longrightarrow>
             hash_SingleAnalysis H x = hash_SingleAnalysis H y \<and> truthy H x = truthy H y"
      and "list_all2 SingleAnalysis_eq xs ys"
  shows "foldl (\<lambda>result x. 31 * result + (if truthy H x then hash_SingleAnalysis H x else 0)) r xs
       = foldl (\<lambda>result x. 31 * result + (if truthy H x then hash_SingleAnalysis H x else 0)) r ys"
  using assms(2)
proof (induction xs ys arbitrary: r rule: list_all2_induct)
  case Nil
  show ?case by simp
next
  case (Cons x xs y ys)
  from assms(1)[OF Cons.hyps(1)] Cons.IH show ?case by simp
qed

text \<open>
  Claim C10, as the code has it. Equality and hashing of WordAnalysis are structural
  over the input string, the normalized input string and the ordered analysis sequence:
  two values are equal if and only if the three components are equal (the sequences as
  tuples, element by element); equal values have equal hashes, given that equal
  analyses have equal hashes and truth values; the iteration index affects neither
  equality nor the hash; and a \<open>for\<close> loop whose body does not iterate over the same
  object yields all the analyses in order, whatever the index was before.
\<close>

theorem WordAnalysis_eq_hash_structural:
  assumes "\<And>x y. SingleAnalysis_eq x y \<Longrightarrow>
             hash_SingleAnalysis H x = hash_SingleAnalysis H y \<and> truthy H x = truthy H y"
  shows "WordAnalysis_eq a (Obj_WordAnalysis b) =
           (inp a = inp b \<and> normalized_input a = normalized_input b \<and>
            tuple_eq (analysis_results a) (analysis_results b))
       \<and> (WordAnalysis_eq a (Obj_WordAnalysis b) \<longrightarrow>
            WordAnalysis_hash H a = WordAnalysis_hash H b)
       \<and> WordAnalysis_eq (a\<lparr>index := i\<rparr>) (Obj_WordAnalysis (b\<lparr>index := j\<rparr>)) =
           WordAnalysis_eq a (Obj_WordAnalysis b)
       \<and> WordAnalysis_hash H (a\<lparr>index := i\<rparr>) = WordAnalysis_hash H a
       \<and> iterate (a\<lparr>index := i\<rparr>) = analysis_results a"
proof -
  have eq: "WordAnalysis_eq a (Obj_WordAnalysis b) =
           (inp a = inp b \<and> normalized_input a = normalized_input b \<and>
            tuple_eq (analysis_results a) (analysis_results b))"
    by simp
  have hash: "WordAnalysis_hash H a = WordAnalysis_hash H b"
    if "WordAnalysis_eq a (Obj_WordAnalysis b)"
  proof -
    from that have f: "inp a = inp b" "normalized_input a = normalized_input b"
      and l: "list_all2 SingleAnalysis_eq (analysis_results a) (analysis_results b)"
      by (simp_all add: tuple_eq_def split: if_splits)
    show ?thesis
      unfolding WordAnalysis_hash_def f by (rule hash_fold_cong[OF assms l])
  qed
  have idx: "WordAnalysis_eq (a\<lparr>index := i\<rparr>) (Obj_WordAnalysis (b\<lparr>index := j\<rparr>)) =
           WordAnalysis_eq a (Obj_WordAnalysis b)"
    by simp
  have hidx: "WordAnalysis_hash H (a\<lparr>index := i\<rparr>) = WordAnalysis_hash H a"
    by (simp add: WordAnalysis_hash_def)
  have it: "iterate (a\<lparr>index := i\<rparr>) = analysis_results a"
    by (simp add: iterate_results)
  from eq hash idx hidx it show ?thesis by blast
qed


theorem WordAnalysis_eq_hash_structural_witness:
  "WordAnalysis_eq
     \<lparr>inp = ascii ''Ahmet'',
      analysis_results = example_analyzer (ascii ''ahmetin''),
      normalized_input = ascii ''ahmet'', index = 1\<rparr>
     (Obj_WordAnalysis
       \<lparr>inp = ascii ''Ahmet'',
        analysis_results = example_analyzer (ascii ''ahmetin''),
        normalized_input = ascii ''ahmet'', index = 0\<rparr>)
   \<and> WordAnalysis_hash example_hashing
       \<lparr>inp = ascii ''Ahmet'',
        analysis_results = example_analyzer (ascii ''ahmetin''),
        normalized_input = ascii ''ahmet'', index = 1\<rparr>
     = WordAnalysis_hash example_hashing
       \<lparr>inp = ascii ''Ahmet'',
        analysis_results = example_analyzer (ascii ''ahmetin''),
        normalized_input = ascii ''ahmet'', index = 0\<rparr>
   \<and> iterate
       \<lparr>inp = ascii ''Ahmet'',
        analysis_results = example_analyzer (ascii ''ahmetin''),
        normalized_input = ascii ''ahmet'', index = 1\<rparr>
     = example_analyzer (ascii ''ahmetin'')"
proof -
  have contract: "\<And>x y. SingleAnalysis_eq x y \<Longrightarrow>
      hash_SingleAnalysis example_hashing x = hash_SingleAnalysis example_hashing y \<and>
      truthy example_hashing x = truthy example_hashing y"
    by (simp add: SingleAnalysis_eq_def example_hashing_def)
  show ?thesis
    using WordAnalysis_eq_hash_structural[where H = example_hashing, OF contract,
        where a = "\<lparr>inp = ascii ''Ahmet'',
                    analysis_results = example_analyzer (ascii ''ahmetin''),
                    normalized_input = ascii ''ahmet'', index = 0\<rparr>"
          and b = "\<lparr>inp = ascii ''Ahmet'',
                    analysis_results = example_analyzer (ascii ''ahmetin''),
                    normalized_input = ascii ''ahmet'', index = 0\<rparr>"
          and i = 1 and j = 0]
    by (simp add: tuple_eq_def SingleAnalysis_eq_def list_all2_refl)
qed

text \<open>
  A loop leaves the index at the end of the sequence, so an outer loop over the same
  object stops after its first element.
\<close>

lemma exhaust_end:
  "exhaust it = it\<lparr>index := max (index it) (length (analysis_results it))\<rparr>"
proof (induction it rule: exhaust.induct)
  case (1 it)
  show ?case
  proof (cases "index it < length (analysis_results it)")
    case True
    then have n: "WordAnalysis_next it =
        Inr (analysis_results it ! index it, it\<lparr>index := index it + 1\<rparr>)"
      by (simp add: WordAnalysis_next_def)
    have "exhaust it = exhaust (it\<lparr>index := index it + 1\<rparr>)"
      by (subst exhaust.simps) (simp add: n)
    also have "\<dots> = it\<lparr>index := max (index it) (length (analysis_results it))\<rparr>"
      using "1.IH"[OF n refl] True by (simp add: max_def)
    finally show ?thesis .
  next
    case False
    then have "WordAnalysis_next it = Inl StopIteration"
      by (simp add: WordAnalysis_next_def)
    then have "exhaust it = it"
      by (subst exhaust.simps) simp
    with False show ?thesis by (simp add: max_def)
  qed
qed

lemma nested_iterate_first:
  "nested_iterate wa = take 1 (analysis_results wa)"
proof (cases "analysis_results wa")
  case Nil
  then have "WordAnalysis_next (wa\<lparr>index := 0\<rparr>) = Inl StopIteration"
    by (simp add: WordAnalysis_next_def)
  then show ?thesis
    using Nil by (simp add: nested_iterate_def WordAnalysis_iter_def nested_for_loop.simps[of "wa\<lparr>index := 0\<rparr>"])
next
  case (Cons a as)
  let ?e = "wa\<lparr>index := length (analysis_results wa)\<rparr>"
  have n: "WordAnalysis_next (wa\<lparr>index := 0\<rparr>) = Inr (a, wa\<lparr>index := Suc 0\<rparr>)"
    using Cons by (simp add: WordAnalysis_next_def)
  have e: "exhaust (WordAnalysis_iter (wa\<lparr>index := Suc 0\<rparr>)) = ?e"
    by (simp add: exhaust_end WordAnalysis_iter_def)
  have s: "WordAnalysis_next ?e = Inl StopIteration"
    by (simp add: WordAnalysis_next_def)
  have "nested_for_loop (wa\<lparr>index := 0\<rparr>) [] = nested_for_loop ?e [a]"
    by (subst nested_for_loop.simps) (simp add: n e)
  also have "\<dots> = [a]"
    by (subst nested_for_loop.simps) (simp add: s)
  finally show ?thesis
    using Cons by (simp add: nested_iterate_def WordAnalysis_iter_def)
qed

text \<open>
  Claim C10, as stated, says that the index never affects the sequence of analyses
  yielded by iteration. The object is its own iterator: in a loop nested in a loop over
  the same WordAnalysis the inner loop moves the shared index to the end, and the outer
  loop yields one of the two analyses.
\<close>

theorem nested_iteration_counterexample:
  "nested_iterate
     \<lparr>inp = ascii ''ahmetin'', analysis_results = example_analyzer (ascii ''ahmetin''),
      normalized_input = ascii ''ahmetin'', index = 0\<rparr>
     \<noteq> analysis_results
       \<lparr>inp = ascii ''ahmetin'', analysis_results = example_analyzer (ascii ''ahmetin''),
        normalized_input = ascii ''ahmetin'', index = 0\<rparr>
   \<and> length (nested_iterate
     \<lparr>inp = ascii ''ahmetin'', analysis_results = example_analyzer (ascii ''ahmetin''),
      normalized_input = ascii ''ahmetin'', index = 0\<rparr>) = 1
   \<and> length (example_analyzer (ascii ''ahmetin'')) = 2"
  by (simp add: nested_iterate_first example_analyzer_def)

section \<open>Python string helpers\<close>

lemma str_find_ge: "- 1 \<le> str_find s c"
  by (induction s) (auto simp: Let_def)

lemma str_find_neg: "(str_find s c < 0) = (str_find s c = - 1)"
  using str_find_ge[of s c] by arith

lemma str_find_absent: "(str_find s c = - 1) = (c \<notin> set s)"
proof (induction s)
  case Nil
  show ?case by simp
next
  case (Cons a s)
  show ?case using Cons str_find_ge[of s c] by (auto simp: Let_def)
qed

lemma str_find_lt: "str_find s c < int (length s)"
  by (induction s) (auto simp: Let_def)

lemma str_find_nth: "0 \<le> str_find s c \<Longrightarrow> s ! nat (str_find s c) = c"
  by (induction s) (auto simp: Let_def str_find_neg nat_add_distrib split: if_splits)

lemma str_find_first: "0 \<le> str_find s c \<Longrightarrow> c \<notin> set (take (nat (str_find s c)) s)"
  by (induction s) (auto simp: Let_def str_find_neg nat_add_distrib split: if_splits)

section \<open>Properties of turkish\_morphology.py: the entry points\<close>

text \<open>
  The recursive call of \<open>analyze_without_cache\<close>: with no word the function is its
  \<open>else\<close> branch, and with a non-empty word it is the source's \<open>if\<close> branch, recursive
  call included.
\<close>

lemma analyze_without_cache_rec:
  "analyze_without_cache X self None token = analyze_token X self token"
  by (simp add: analyze_without_cache_def str_truth_def)

lemma analyze_without_cache_word:
  "w \<noteq> [] \<Longrightarrow>
   analyze_without_cache X self (Some w) token =
     (let tokens = tokenizer self w
      in if length tokens \<noteq> 1
         then ([Tokenize w], Inr (WordAnalysis_init w [] (Some w)))
         else (let (calls, r) = analyze_without_cache X self None (Some (tokens ! 0))
               in (Tokenize w # calls, r)))"
  by (simp add: analyze_without_cache_def str_truth_def Let_def)

text \<open>
  A non-empty word that tokenizes into anything but one token: the tokenizer is the
  only collaborator called, and the result holds the raw input, no analyses and the raw
  input as normalized input.
\<close>

lemma analyze_multi_token:
  "w \<noteq> [] \<Longrightarrow> length (tokenizer self w) \<noteq> 1 \<Longrightarrow>
   analyze_without_cache X self (Some w) token =
     ([Tokenize w], Inr \<lparr>inp = w, analysis_results = [], normalized_input = w, index = 0\<rparr>)"
  by (simp add: analyze_without_cache_def str_truth_def WordAnalysis_init_def)

text \<open>A non-empty word of one token is analyzed as that token.\<close>

lemma analyze_single_token:
  "\<not> use_cache self \<Longrightarrow> w \<noteq> [] \<Longrightarrow> tokenizer self w = [tok] \<Longrightarrow>
   analyze X self w =
     (Tokenize w # fst (analyze_without_cache X self None (Some tok)),
      snd (analyze_without_cache X self None (Some tok)))"
  by (simp add: analyze_def analyze_without_cache_def str_truth_def split: prod.splits)

lemma analyze_token_not_NotImplemented:
  "snd (analyze_token X self token) \<noteq> Inl (NotImplementedError msg)"
  by (simp add: analyze_token_def Let_def split: option.splits prod.splits)

lemma analyze_without_cache_not_NotImplemented:
  "snd (analyze_without_cache X self word token) \<noteq> Inl (NotImplementedError msg)"
  using analyze_token_not_NotImplemented
  by (simp add: analyze_without_cache_def Let_def split: prod.splits) (metis snd_conv)

text \<open>
  Claim C8. When the cache path is enabled (\<open>use_cache\<close> true), every call to \<open>analyze\<close>
  fails with \<open>NotImplementedError\<close> and its message, before any collaborator is called;
  when it is disabled, \<open>analyze\<close> is \<open>analyze_without_cache\<close> on the word and never
  raises \<open>NotImplementedError\<close>.
\<close>

theorem analyze_cache_path:
  "(use_cache self \<longrightarrow>
      analyze X self word =
        ([], Inl (NotImplementedError ''Cache is not implemented yet, make use_cache False'')))
   \<and> (\<not> use_cache self \<longrightarrow>
      analyze X self word = analyze_without_cache X self (Some word) None
      \<and> (\<forall>msg. snd (analyze X self word) \<noteq> Inl (NotImplementedError msg)))"
  using analyze_without_cache_not_NotImplemented
  by (simp add: analyze_def analyze_with_cache_def)

theorem analyze_cache_path_witness:
  "use_cache (example_morphology\<lparr>use_cache := True\<rparr>)
   \<and> analyze example_externals (example_morphology\<lparr>use_cache := True\<rparr>) (ascii ''ahmet'') =
       ([], Inl (NotImplementedError ''Cache is not implemented yet, make use_cache False''))
   \<and> \<not> use_cache example_morphology
   \<and> analyze example_externals example_morphology (ascii ''ahmet'') =
       analyze_without_cache example_externals example_morphology (Some (ascii ''ahmet'')) None"
  using analyze_cache_path[where self = "example_morphology\<lparr>use_cache := True\<rparr>"
          and X = example_externals and word = "ascii ''ahmet''"]
        analyze_cache_path[where self = example_morphology
          and X = example_externals and word = "ascii ''ahmet''"]
  by (simp add: example_morphology_def)

text \<open>
  Claim C1 says that \<open>analyze\<close> returns the shared sentinel \<open>EMPTY_INPUT_RESULT\<close> for the
  empty-string input and does not raise. On the code, with the cache path disabled, the
  empty string is false under \<open>if word:\<close>, the \<open>else\<close> branch reads \<open>token.content\<close> with
  \<open>token = None\<close>, and the call raises \<open>AttributeError\<close>; no collaborator is called.
\<close>

theorem analyze_empty_string_raises:
  "analyze X (self\<lparr>use_cache := False\<rparr>) [] =
     ([], Inl (AttributeError ''NoneType object has no attribute content''))"
  by (simp add: analyze_def analyze_without_cache_def str_truth_def analyze_token_def)

text \<open>
  The other half of C1 holds on the code: a token whose normalization is the empty
  string is answered with \<open>EMPTY_INPUT_RESULT\<close>, whose candidate collection is empty,
  and no analyzer is called.
\<close>

lemma analyze_token_empty_normalization:
  "normalize_for_analysis X (content tok) = [] \<Longrightarrow>
   analyze_without_cache X self None (Some tok) = ([], Inr EMPTY_INPUT_RESULT)
   \<and> analysis_results EMPTY_INPUT_RESULT = []"
  by (simp add: analyze_without_cache_rec analyze_token_def EMPTY_INPUT_RESULT_def
      WordAnalysis_init_def)

text \<open>
  Claim C2 says that every input word that tokenizes into anything other than exactly
  one token is answered with a WordAnalysis of the raw input, no analyses and the raw
  input as normalized input. The empty string is such a word for the instance's
  tokenizer (it yields no token), and on it the code raises \<open>AttributeError\<close> without
  calling the tokenizer. For non-empty words the claim holds (lemma
  \<open>analyze_multi_token\<close>).
\<close>

theorem analyze_empty_word_not_tokenized:
  "length (tokenizer example_morphology []) \<noteq> 1
   \<and> analyze_without_cache example_externals example_morphology (Some []) None =
       ([], Inl (AttributeError ''NoneType object has no attribute content''))"
  by (simp add: analyze_without_cache_def str_truth_def analyze_token_def
      example_morphology_def example_tokenizer_def)

section \<open>Properties of turkish\_morphology.py: the apostrophe path\<close>

text \<open>The definitions of the small instance, unfolded when a function is run on it.\<close>

lemmas example_defs =
  example_externals_def example_morphology_def example_analyzer_def example_unidentified_def
  example_tokenizer_def example_lower_char_def example_circumflex_char_def
  example_apostrophe_char_def ascii_def ahmet_item_def ahmeti_item_def okumak_item_def
  unknown_item_def

text \<open>
  Claim C4, as the code has it. For every word in which the first apostrophe (the one
  \<open>find\<close> returns) is at position 0 or at the final character, or which has no
  apostrophe, \<open>analyze_words_with_apostrophe\<close> returns the empty tuple; the analyzer is
  not called and nothing is raised.
\<close>

theorem apostrophe_splitter_malformed:
  "39 \<notin> set word \<or> str_find word 39 = 0 \<or> str_find word 39 = int (length word) - 1 \<Longrightarrow>
   analyze_words_with_apostrophe X self word = ([], [])"
  using str_find_absent[of word 39]
  by (auto simp: analyze_words_with_apostrophe_def Let_def)

theorem apostrophe_splitter_malformed_witness:
  "39 \<notin> set (ascii ''ahmet'')
   \<and> analyze_words_with_apostrophe example_externals example_morphology (ascii ''ahmet'') = ([], [])
   \<and> str_find (39 # ascii ''ahmet'') 39 = 0
   \<and> analyze_words_with_apostrophe example_externals example_morphology (39 # ascii ''ahmet'')
       = ([], [])
   \<and> str_find (ascii ''ahmet'' @ [39]) 39 = int (length (ascii ''ahmet'' @ [39])) - 1
   \<and> analyze_words_with_apostrophe example_externals example_morphology (ascii ''ahmet'' @ [39])
       = ([], [])"
  using apostrophe_splitter_malformed[where word = "ascii ''ahmet''"
          and X = example_externals and self = example_morphology]
        apostrophe_splitter_malformed[where word = "39 # ascii ''ahmet''"
          and X = example_externals and self = example_morphology]
        apostrophe_splitter_malformed[where word = "ascii ''ahmet'' @ [39]"
          and X = example_externals and self = example_morphology]
  by (simp add: ascii_def)

text \<open>
  Claim C4, as stated, covers every word with an apostrophe at the final character.
  The code looks at the first apostrophe only: in ahmet'in' the first one is at
  position 5, neither first nor last, so the word without apostrophes is analysed and
  a noun analysis is returned.
\<close>

theorem apostrophe_last_counterexample:
  "apostrophe_malformed (ascii ''ahmet'' @ [39] @ ascii ''in'' @ [39])
   \<and> snd (analyze_words_with_apostrophe example_externals example_morphology
         (ascii ''ahmet'' @ [39] @ ascii ''in'' @ [39])) \<noteq> []"
  by (simp add: apostrophe_malformed_def analyze_words_with_apostrophe_def Let_def
      replace_with_empty_def contains_morpheme_def p3sg_def example_defs)




section \<open>Properties of turkish\_morphology.py: fallback and the lone unknown analysis\<close>

lemma analyzer_step_calls:
  "analyzer_step X self s0 = (calls_an, s, result_an) \<Longrightarrow>
   filter is_fallback_call calls_an = []"
  by (auto simp: analyzer_step_def analyze_words_with_apostrophe_def Let_def
      split: if_splits prod.splits)

text \<open>
  Claim C5. For every analyzed token (one whose normalized text is not empty), if the
  candidate collection produced by the analyzer step and the fallback step holds
  exactly one analysis and that analysis's root item is the unknown marker, the
  returned WordAnalysis carries an empty candidate collection.
\<close>

theorem lone_unknown_suppressed:
  assumes "normalize_for_analysis X (content tok) \<noteq> []"
      and "analyzer_step X self (normalize_for_analysis X (content tok)) =
             (calls_an, s, result_an)"
      and "fallback_step self tok result_an = (calls_fb, result_fb)"
      and "length result_fb = 1"
      and "is_unknown (item (result_fb ! 0))"
  shows "analyze_without_cache X self None (Some tok) =
           (calls_an @ calls_fb,
            Inr \<lparr>inp = content tok, analysis_results = [], normalized_input = s, index = 0\<rparr>)"
  using assms
  by (simp add: analyze_without_cache_rec analyze_token_def unknown_step_def
      WordAnalysis_init_def)

theorem lone_unknown_suppressed_witness:
  "analyze_without_cache example_externals example_morphology None
     (Some \<lparr>content = ascii ''Xyz''\<rparr>) =
     ([Analyze (ascii ''xyz''), AnalyzeUnidentified \<lparr>content = ascii ''Xyz''\<rparr>],
      Inr \<lparr>inp = ascii ''Xyz'', analysis_results = [], normalized_input = ascii ''xyz'',
           index = 0\<rparr>)"
  using lone_unknown_suppressed[where X = example_externals and self = example_morphology
          and tok = "\<lparr>content = ascii ''Xyz''\<rparr>"
          and calls_an = "[Analyze (ascii ''xyz'')]" and s = "ascii ''xyz''"
          and result_an = "[]"
          and calls_fb = "[AnalyzeUnidentified \<lparr>content = ascii ''Xyz''\<rparr>]"
          and result_fb = "example_unidentified \<lparr>content = ascii ''Xyz''\<rparr>"]
  by (simp add: normalize_for_analysis_def translate_def replace_with_empty_def
      analyzer_step_def fallback_step_def is_unknown_def example_defs)

text \<open>
  Claim C6. For every analyzed token, the unidentified-token analyzer is called, once
  and with the original token, exactly when the analyzer step (the rule-based analyzer
  or the apostrophe path) produced an empty result and the fallback is enabled; with
  the fallback disabled, an empty analyzer result stays an empty candidate collection.
\<close>

theorem fallback_invoked_iff:
  assumes "normalize_for_analysis X (content tok) \<noteq> []"
      and "analyzer_step X self (normalize_for_analysis X (content tok)) =
             (calls_an, s, result_an)"
  shows "filter is_fallback_call (fst (analyze_without_cache X self None (Some tok))) =
           (if result_an = [] \<and> use_unidentified_token_analyzer self
            then [AnalyzeUnidentified tok] else [])
         \<and> (result_an = [] \<and> \<not> use_unidentified_token_analyzer self \<longrightarrow>
              snd (analyze_without_cache X self None (Some tok)) =
                Inr \<lparr>inp = content tok, analysis_results = [], normalized_input = s,
                     index = 0\<rparr>)"
  using assms analyzer_step_calls[OF assms(2)]
  by (simp add: analyze_without_cache_rec analyze_token_def fallback_step_def
      unknown_step_def WordAnalysis_init_def)

theorem fallback_invoked_iff_witness:
  "filter is_fallback_call
     (fst (analyze_without_cache example_externals example_morphology None
        (Some \<lparr>content = ascii ''Xyz''\<rparr>))) = [AnalyzeUnidentified \<lparr>content = ascii ''Xyz''\<rparr>]
   \<and> filter is_fallback_call
     (fst (analyze_without_cache example_externals example_morphology None
        (Some \<lparr>content = ascii ''Ahmet''\<rparr>))) = []
   \<and> filter is_fallback_call
     (fst (analyze_without_cache example_externals
        (example_morphology\<lparr>use_unidentified_token_analyzer := False\<rparr>) None
        (Some \<lparr>content = ascii ''Xyz''\<rparr>))) = []
   \<and> snd (analyze_without_cache example_externals
        (example_morphology\<lparr>use_unidentified_token_analyzer := False\<rparr>) None
        (Some \<lparr>content = ascii ''Xyz''\<rparr>)) =
       Inr \<lparr>inp = ascii ''Xyz'', analysis_results = [], normalized_input = ascii ''xyz'',
            index = 0\<rparr>"
  using fallback_invoked_iff[where X = example_externals and self = example_morphology
          and tok = "\<lparr>content = ascii ''Xyz''\<rparr>"
          and calls_an = "[Analyze (ascii ''xyz'')]" and s = "ascii ''xyz''"
          and result_an = "[]"]
        fallback_invoked_iff[where X = example_externals and self = example_morphology
          and tok = "\<lparr>content = ascii ''Ahmet''\<rparr>"
          and calls_an = "[Analyze (ascii ''ahmet'')]" and s = "ascii ''ahmet''"
          and result_an = "example_analyzer (ascii ''ahmet'')"]
        fallback_invoked_iff[where X = example_externals
          and self = "example_morphology\<lparr>use_unidentified_token_analyzer := False\<rparr>"
          and tok = "\<lparr>content = ascii ''Xyz''\<rparr>"
          and calls_an = "[Analyze (ascii ''xyz'')]" and s = "ascii ''xyz''"
          and result_an = "[]"]
  by (simp add: normalize_for_analysis_def translate_def replace_with_empty_def
      analyzer_step_def example_defs)

section \<open>Properties of turkish\_morphology.py: normalization\<close>

text \<open>
  The steps of \<open>normalize_for_analysis\<close> that the module itself defines are their order
  and the dot rule of lines 74 to 76. The dot rule is idempotent, and it commutes with
  a character map that sends the dot, and only the dot, to the dot.
\<close>

lemma translate_id:
  "(\<And>c. c \<in> set t \<Longrightarrow> table c = None) \<Longrightarrow> translate table t = t"
  by (induction t) (simp_all add: translate_def)

lemma dot_rule_idem:
  fixes u :: str
  defines "v \<equiv> (if length (replace_with_empty u 46) = 0 then u else replace_with_empty u 46)"
  shows "(if length (replace_with_empty v 46) = 0 then v else replace_with_empty v 46) = v"
  by (simp add: v_def replace_with_empty_def)

lemma replace_with_empty_map:
  "(\<And>c. (f c = d) = (c = d)) \<Longrightarrow>
   replace_with_empty (map f u) d = map f (replace_with_empty u d)"
  by (simp add: replace_with_empty_def filter_map comp_def)

text \<open>
  Claim C9. \<open>normalize_for_analysis\<close> is idempotent: for every string \<open>s\<close>, normalizing
  the normalized string returns it unchanged. The helpers are not defined in the module;
  the theorem holds for all helpers of this kind: lowering (the \<open>lower_map\<close> translation
  followed by \<open>str.lower\<close>) leaves only characters of a set \<open>S\<close> and changes no string
  made of them; circumflex stripping and apostrophe normalization replace character by
  character, by \<open>cm\<close> and \<open>am\<close>, which stay inside \<open>S\<close>, are stable on what they produce,
  and \<open>am\<close> neither makes nor removes a dot.
\<close>

theorem normalize_for_analysis_idempotent:
  assumes lower_out: "\<And>s. set (str_lower X (translate (lower_map X) s)) \<subseteq> S"
      and lower_fix: "\<And>t. set t \<subseteq> S \<Longrightarrow> str_lower X (translate (lower_map X) t) = t"
      and circ: "normalize_circumflex X = map cm"
      and apos: "normalize_apostrophes X = map am"
      and closed: "\<And>c. c \<in> S \<Longrightarrow> cm c \<in> S \<and> am c \<in> S"
      and cm_fix: "\<And>c. c \<in> S \<Longrightarrow> cm (am (cm c)) = am (cm c)"
      and am_fix: "\<And>c. c \<in> S \<Longrightarrow> am (am c) = am c"
      and am_dot: "\<And>c. (am c = 46) = (c = 46)"
  shows "normalize_for_analysis X (normalize_for_analysis X s) = normalize_for_analysis X s"
proof -
  define F where "F w = str_lower X (translate (lower_map X) w)" for w
  define D :: "str \<Rightarrow> str" where
    "D u = (if length (replace_with_empty u 46) = 0 then u else replace_with_empty u 46)" for u
  have N: "normalize_for_analysis X w = map am (D (map cm (F w)))" for w
    by (simp add: normalize_for_analysis_def Let_def circ apos F_def D_def)
  define u where "u = D (map cm (F s))"
  define t where "t = map am u"
  have D_sub: "set (D w) \<subseteq> set w" for w
    by (auto simp: D_def replace_with_empty_def)
  have D_idem: "D (D w) = D w" for w
    unfolding D_def by (rule dot_rule_idem)
  have D_map: "D (map am w) = map am (D w)" for w
    by (simp add: D_def replace_with_empty_map[of am, OF am_dot])
  have u_cm: "\<exists>c\<in>S. y = cm c" if "y \<in> set u" for y
    using that D_sub[of "map cm (F s)"] lower_out[of s] by (auto simp: u_def F_def)
  have u_S: "set u \<subseteq> S"
    using u_cm closed by blast
  have t_S: "set t \<subseteq> S"
    using u_S closed by (auto simp: t_def)
  have "F t = t"
    unfolding F_def by (rule lower_fix[OF t_S])
  moreover have "map cm t = t"
    unfolding t_def using u_cm cm_fix by (auto intro!: map_idI)
  moreover have "D t = t"
    unfolding t_def u_def by (simp add: D_map D_idem)
  moreover have "map am t = t"
    unfolding t_def using u_S am_fix by (auto intro!: map_idI)
  ultimately have "map am (D (map cm (F t))) = t" by simp
  then show ?thesis by (simp add: N t_def u_def)
qed


lemma example_lower_out:
  "set (str_lower example_externals (translate (lower_map example_externals) s))
     \<subseteq> {c. example_lower_char c = c}"
  by (auto simp: example_externals_def example_lower_char_def)

lemma example_lower_fix:
  assumes "set t \<subseteq> {c. example_lower_char c = c}"
  shows "str_lower example_externals (translate (lower_map example_externals) t) = t"
proof -
  have "c \<noteq> 73" if "c \<in> set t" for c
    using that assms by (auto simp: example_lower_char_def)
  then have "translate (lower_map example_externals) t = t"
    by (intro translate_id) (simp add: example_externals_def)
  moreover have "map example_lower_char t = t"
    using assms by (auto intro!: map_idI)
  ultimately show ?thesis by (simp add: example_externals_def)
qed

theorem normalize_for_analysis_idempotent_witness:
  "normalize_for_analysis example_externals [73, 46, 194, 8217, 110] = [305, 97, 39, 110]
   \<and> normalize_for_analysis example_externals
        (normalize_for_analysis example_externals [73, 46, 194, 8217, 110])
      = normalize_for_analysis example_externals [73, 46, 194, 8217, 110]"
proof -
  have circ: "normalize_circumflex example_externals = map example_circumflex_char"
    and apos: "normalize_apostrophes example_externals = map example_apostrophe_char"
    by (simp_all add: example_externals_def)
  have closed: "\<And>c. c \<in> {c. example_lower_char c = c} \<Longrightarrow>
      example_circumflex_char c \<in> {c. example_lower_char c = c} \<and>
      example_apostrophe_char c \<in> {c. example_lower_char c = c}"
    by (auto simp: example_lower_char_def example_circumflex_char_def
        example_apostrophe_char_def)
  have cm_fix: "\<And>c. c \<in> {c. example_lower_char c = c} \<Longrightarrow>
      example_circumflex_char (example_apostrophe_char (example_circumflex_char c)) =
      example_apostrophe_char (example_circumflex_char c)"
    by (auto simp: example_lower_char_def example_circumflex_char_def
        example_apostrophe_char_def)
  have am_fix: "\<And>c. c \<in> {c. example_lower_char c = c} \<Longrightarrow>
      example_apostrophe_char (example_apostrophe_char c) = example_apostrophe_char c"
    by (auto simp: example_apostrophe_char_def)
  have am_dot: "\<And>c. (example_apostrophe_char c = 46) = (c = 46)"
    by (auto simp: example_apostrophe_char_def)
  have v: "normalize_for_analysis example_externals [73, 46, 194, 8217, 110]
             = [305, 97, 39, 110]"
    by (simp add: normalize_for_analysis_def translate_def replace_with_empty_def
        example_externals_def example_lower_char_def example_circumflex_char_def
        example_apostrophe_char_def)
  show ?thesis
    using v normalize_for_analysis_idempotent[where X = example_externals
        and S = "{c. example_lower_char c = c}"
        and cm = example_circumflex_char and am = example_apostrophe_char
        and s = "[73, 46, 194, 8217, 110]",
        OF example_lower_out example_lower_fix circ apos closed cm_fix am_fix am_dot]
    by simp
qed


end
